theory Spec2Isabelle
  imports Main "HOL-Library.Char_ord" "HOL-Library.List_Lexorder"
begin

section \<open>Bytes and UTF-8\<close>

text \<open>
  A Go \<^verbatim>\<open>string\<close> and a \<^verbatim>\<open>[]byte\<close> are byte sequences; both are modelled by
  \<^typ>\<open>string\<close>, whose characters are the 256 byte values. Strings are ordered
  byte-wise lexicographically, as \<^verbatim>\<open>strings.Compare\<close> orders them.
\<close>

abbreviation byte :: "char \<Rightarrow> nat" where
  "byte c \<equiv> of_char c"

abbreviation dquote :: char where
  "dquote \<equiv> CHR 0x22"

abbreviation backslash :: char where
  "backslash \<equiv> CHR 0x5C"

abbreviation RuneError :: nat where
  "RuneError \<equiv> 0xFFFD"

text \<open>
  \<^verbatim>\<open>utf8.DecodeRune\<close>: the code point at the head of a byte sequence and its width.
  A byte that starts no well-formed sequence decodes to \<^verbatim>\<open>(RuneError, 1)\<close>.
\<close>

fun DecodeRune :: "string \<Rightarrow> nat \<times> nat" where
  "DecodeRune [] = (RuneError, 0)"
| "DecodeRune (c0 # cs) =
     (let b0 = byte c0 in
      if b0 < 0x80 then (b0, 1)
      else if b0 < 0xC2 \<or> 0xF4 < b0 then (RuneError, 1)
      else
        let sz = (if b0 < 0xE0 then 2 else if b0 < 0xF0 then 3 else 4 :: nat);
            lo = (if b0 = 0xE0 then 0xA0 else if b0 = 0xF0 then 0x90 else 0x80);
            hi = (if b0 = 0xED then 0x9F else if b0 = 0xF4 then 0x8F else 0xBF)
        in
        if length cs + 1 < sz then (RuneError, 1)
        else
          let b1 = byte (cs ! 0) in
          if b1 < lo \<or> hi < b1 then (RuneError, 1)
          else if sz = 2 then ((b0 mod 32) * 64 + b1 mod 64, 2)
          else
            let b2 = byte (cs ! 1) in
            if b2 < 0x80 \<or> 0xBF < b2 then (RuneError, 1)
            else if sz = 3 then ((b0 mod 16) * 4096 + (b1 mod 64) * 64 + b2 mod 64, 3)
            else
              let b3 = byte (cs ! 2) in
              if b3 < 0x80 \<or> 0xBF < b3 then (RuneError, 1)
              else ((b0 mod 8) * 262144 + (b1 mod 64) * 4096 + (b2 mod 64) * 64
                      + b3 mod 64, 4))"

text \<open>\<^verbatim>\<open>utf8.EncodeRune\<close>: surrogates and values beyond U+10FFFF are written as U+FFFD.\<close>

definition EncodeRune :: "nat \<Rightarrow> string" where
  "EncodeRune r =
     (if r \<le> 0x7F then [char_of r]
      else if r \<le> 0x7FF then [char_of (0xC0 + r div 64), char_of (0x80 + r mod 64)]
      else if 0x10FFFF < r \<or> (0xD800 \<le> r \<and> r \<le> 0xDFFF) then [CHR 0xEF, CHR 0xBF, CHR 0xBD]
      else if r \<le> 0xFFFF then
        [char_of (0xE0 + r div 4096), char_of (0x80 + (r div 64) mod 64),
         char_of (0x80 + r mod 64)]
      else
        [char_of (0xF0 + r div 262144), char_of (0x80 + (r div 4096) mod 64),
         char_of (0x80 + (r div 64) mod 64), char_of (0x80 + r mod 64)])"

text \<open>\<^verbatim>\<open>utf8.ValidString\<close>: every byte belongs to a well-formed sequence.\<close>

fun ValidString :: "string \<Rightarrow> bool" where
  "ValidString [] = True"
| "ValidString (c # cs) =
     (case DecodeRune (c # cs) of (r, w) \<Rightarrow>
        \<not> (r = RuneError \<and> w = 1) \<and> ValidString (drop (w - 1) cs))"

section \<open>JSON values\<close>

text \<open>
  What \<^verbatim>\<open>encoding/json\<close> stores in an \<^verbatim>\<open>interface{}\<close>: nil, bool, float64, string,
  \<^verbatim>\<open>[]interface{}\<close> and \<^verbatim>\<open>map[string]interface{}\<close>. The type of numbers is a parameter:
  with \<^typ>\<open>string\<close> for it, a value is the syntax tree of a JSON text (numbers as their
  literals, object members in the order of the text); a decoded value carries the
  program's numbers. A Go map is an association list kept strictly sorted by key, which
  is the order in which \<^verbatim>\<open>encoding/json\<close> writes a map.
\<close>

datatype 'n jvalue =
    JNull
  | JBool bool
  | JNumber 'n
  | JString string
  | JArray "'n jvalue list"
  | JObject "(string \<times> 'n jvalue) list"

text \<open>
  \<^verbatim>\<open>type JSONData map[string]interface{}\<close> (main.go, line 20). A map variable is nil
  (\<open>None\<close>) or holds a map.
\<close>

type_synonym 'n JSONData = "(string \<times> 'n jvalue) list option"

text \<open>
  The conversions between float64 and number literals, \<^verbatim>\<open>strconv.ParseFloat\<close> and
  \<^verbatim>\<open>strconv.AppendFloat\<close>, are parameters of the model. \<open>parseFloat\<close> is applied to a
  literal of the JSON grammar and is \<open>None\<close> where the literal is out of float64's
  range; \<open>formatFloat\<close> is \<open>None\<close> on the values \<^verbatim>\<open>encoding/json\<close> refuses to write
  (NaN and the infinities).
\<close>

record 'n floatconv =
  parseFloat :: "string \<Rightarrow> 'n option"
  formatFloat :: "'n \<Rightarrow> string option"

fun depth :: "'n jvalue \<Rightarrow> nat"
  and depth_list :: "'n jvalue list \<Rightarrow> nat"
  and depth_members :: "(string \<times> 'n jvalue) list \<Rightarrow> nat" where
  "depth (JArray vs) = Suc (depth_list vs)"
| "depth (JObject kvs) = Suc (depth_members kvs)"
| "depth _ = 0"
| "depth_list [] = 0"
| "depth_list (v # vs) = max (depth v) (depth_list vs)"
| "depth_members [] = 0"
| "depth_members (kv # kvs) = max (depth (snd kv)) (depth_members kvs)"

text \<open>The scanner of \<^verbatim>\<open>encoding/json\<close> refuses a text nested deeper than this.\<close>

definition maxNestingDepth :: nat where
  "maxNestingDepth = 10000"

section \<open>Encoding\<close>

definition hex :: "nat \<Rightarrow> char" where
  "hex n = ''0123456789abcdef'' ! n"

text \<open>
  \<^verbatim>\<open>htmlSafeSet\<close>: the ASCII bytes written as they are. The control characters, the
  quote, the backslash and the three characters \<^verbatim>\<open>< > &\<close> are escaped.
\<close>

definition htmlSafe :: "char \<Rightarrow> bool" where
  "htmlSafe c \<longleftrightarrow>
     0x20 \<le> byte c \<and> byte c < 0x80 \<and> c \<noteq> dquote \<and> c \<noteq> backslash
     \<and> c \<noteq> CHR ''<'' \<and> c \<noteq> CHR ''>'' \<and> c \<noteq> CHR ''&''"

definition escape_ascii :: "char \<Rightarrow> string" where
  "escape_ascii c =
     (if c = backslash \<or> c = dquote then [backslash, c]
      else if c = CHR 0x08 then [backslash, CHR ''b'']
      else if c = CHR 0x0C then [backslash, CHR ''f'']
      else if c = CHR 0x0A then [backslash, CHR ''n'']
      else if c = CHR 0x0D then [backslash, CHR ''r'']
      else if c = CHR 0x09 then [backslash, CHR ''t'']
      else [backslash, CHR ''u'', CHR ''0'', CHR ''0'', hex (byte c div 16), hex (byte c mod 16)])"

text \<open>
  The body of \<^verbatim>\<open>appendString\<close> with HTML escaping, which \<^verbatim>\<open>Marshal\<close> switches on:
  a byte outside UTF-8 is written as the escape of U+FFFD, and U+2028 and U+2029 are escaped.
\<close>

fun escape_bytes :: "string \<Rightarrow> string" where
  "escape_bytes [] = []"
| "escape_bytes (c # cs) =
     (if byte c < 0x80 then
        (if htmlSafe c then [c] else escape_ascii c) @ escape_bytes cs
      else
        (case DecodeRune (c # cs) of (r, w) \<Rightarrow>
           if r = RuneError \<and> w = 1 then
             [backslash, CHR ''u'', CHR ''f'', CHR ''f'', CHR ''f'', CHR ''d''] @ escape_bytes cs
           else if r = 0x2028 \<or> r = 0x2029 then
             [backslash, CHR ''u'', CHR ''2'', CHR ''0'', CHR ''2'', hex (r mod 16)]
               @ escape_bytes (drop (w - 1) cs)
           else c # take (w - 1) cs @ escape_bytes (drop (w - 1) cs)))"

definition appendString :: "string \<Rightarrow> string" where
  "appendString s = dquote # escape_bytes s @ [dquote]"

text \<open>A line break followed by the indentation of the nesting level: two spaces a level.\<close>

definition newline :: "nat \<Rightarrow> string" where
  "newline d = CHR 0x0A # replicate (2 * d) CHR '' ''"

text \<open>
  The text \<^verbatim>\<open>json.MarshalIndent(v, "", "  ")\<close> produces for a syntax tree: every element
  and member on a line of its own, a space after the colon, and the empty array and
  object written as \<^verbatim>\<open>[]\<close> and \<^verbatim>\<open>{}\<close>.
\<close>

fun indent_value :: "nat \<Rightarrow> string jvalue \<Rightarrow> string"
  and indent_list :: "nat \<Rightarrow> string jvalue list \<Rightarrow> string"
  and indent_members :: "nat \<Rightarrow> (string \<times> string jvalue) list \<Rightarrow> string" where
  "indent_value d JNull = ''null''"
| "indent_value d (JBool b) = (if b then ''true'' else ''false'')"
| "indent_value d (JNumber lit) = lit"
| "indent_value d (JString s) = appendString s"
| "indent_value d (JArray vs) =
     (if vs = [] then ''[]'' else CHR ''['' # newline (Suc d) @ indent_list (Suc d) vs)"
| "indent_value d (JObject kvs) =
     (if kvs = [] then ''{}'' else CHR ''{'' # newline (Suc d) @ indent_members (Suc d) kvs)"
| "indent_list d [] = []"
| "indent_list d (v # vs) =
     indent_value d v @
       (if vs = [] then newline (d - 1) @ '']''
        else CHR '','' # newline d @ indent_list d vs)"
| "indent_members d [] = []"
| "indent_members d (kv # kvs) =
     appendString (fst kv) @ '': '' @ indent_value d (snd kv) @
       (if kvs = [] then newline (d - 1) @ ''}''
        else CHR '','' # newline d @ indent_members d kvs)"

text \<open>The compact text \<^verbatim>\<open>json.Marshal\<close> and an \<^verbatim>\<open>Encoder\<close> produce.\<close>

fun compact_value :: "string jvalue \<Rightarrow> string"
  and compact_list :: "string jvalue list \<Rightarrow> string"
  and compact_members :: "(string \<times> string jvalue) list \<Rightarrow> string" where
  "compact_value JNull = ''null''"
| "compact_value (JBool b) = (if b then ''true'' else ''false'')"
| "compact_value (JNumber lit) = lit"
| "compact_value (JString s) = appendString s"
| "compact_value (JArray vs) = CHR ''['' # compact_list vs"
| "compact_value (JObject kvs) = CHR ''{'' # compact_members kvs"
| "compact_list [] = '']''"
| "compact_list (v # vs) =
     compact_value v @ (if vs = [] then '']'' else CHR '','' # compact_list vs)"
| "compact_members [] = ''}''"
| "compact_members (kv # kvs) =
     appendString (fst kv) @ CHR '':'' # compact_value (snd kv) @
       (if kvs = [] then ''}'' else CHR '','' # compact_members kvs)"

text \<open>Writing the numbers of a value as literals; \<open>None\<close> when one cannot be written.\<close>

fun format_value :: "'n floatconv \<Rightarrow> 'n jvalue \<Rightarrow> string jvalue option"
  and format_list :: "'n floatconv \<Rightarrow> 'n jvalue list \<Rightarrow> string jvalue list option"
  and format_members ::
    "'n floatconv \<Rightarrow> (string \<times> 'n jvalue) list \<Rightarrow> (string \<times> string jvalue) list option" where
  "format_value fc JNull = Some JNull"
| "format_value fc (JBool b) = Some (JBool b)"
| "format_value fc (JNumber n) = map_option JNumber (formatFloat fc n)"
| "format_value fc (JString s) = Some (JString s)"
| "format_value fc (JArray vs) = map_option JArray (format_list fc vs)"
| "format_value fc (JObject kvs) = map_option JObject (format_members fc kvs)"
| "format_list fc [] = Some []"
| "format_list fc (v # vs) =
     (case format_value fc v of
        None \<Rightarrow> None
      | Some t \<Rightarrow> map_option ((#) t) (format_list fc vs))"
| "format_members fc [] = Some []"
| "format_members fc (kv # kvs) =
     (case format_value fc (snd kv) of
        None \<Rightarrow> None
      | Some t \<Rightarrow> map_option ((#) (fst kv, t)) (format_members fc kvs))"

section \<open>Decoding\<close>

definition isSpace :: "char \<Rightarrow> bool" where
  "isSpace c \<longleftrightarrow> c = CHR '' '' \<or> c = CHR 0x09 \<or> c = CHR 0x0D \<or> c = CHR 0x0A"

definition skip_ws :: "string \<Rightarrow> string" where
  "skip_ws s = dropWhile isSpace s"

definition isDigit :: "char \<Rightarrow> bool" where
  "isDigit c \<longleftrightarrow> 0x30 \<le> byte c \<and> byte c \<le> 0x39"

text \<open>
  The number states of the scanner: an optional minus sign, then \<^verbatim>\<open>0\<close> or a digit from
  1 to 9 followed by digits, then an optional fraction and an optional exponent, each
  with at least one digit. Each function returns what it read and what is left.
\<close>

definition scan_int :: "string \<Rightarrow> (string \<times> string) option" where
  "scan_int s =
     (case s of
        [] \<Rightarrow> None
      | c # cs \<Rightarrow>
          if c = CHR ''0'' then Some ([c], cs)
          else if isDigit c then Some (c # takeWhile isDigit cs, dropWhile isDigit cs)
          else None)"

definition scan_frac :: "string \<Rightarrow> (string \<times> string) option" where
  "scan_frac s =
     (case s of
        [] \<Rightarrow> Some ([], s)
      | c # cs \<Rightarrow>
          if c = CHR ''.'' then
            (if takeWhile isDigit cs = [] then None
             else Some (c # takeWhile isDigit cs, dropWhile isDigit cs))
          else Some ([], s))"

definition scan_exp :: "string \<Rightarrow> (string \<times> string) option" where
  "scan_exp s =
     (case s of
        [] \<Rightarrow> Some ([], s)
      | c # cs \<Rightarrow>
          if c = CHR ''e'' \<or> c = CHR ''E'' then
            (let sign = (case cs of
                           [] \<Rightarrow> []
                         | x # _ \<Rightarrow> if x = CHR ''+'' \<or> x = CHR ''-'' then [x] else []);
                 ds = drop (length sign) cs
             in if takeWhile isDigit ds = [] then None
                else Some (c # sign @ takeWhile isDigit ds, dropWhile isDigit ds))
          else Some ([], s))"

definition scan_number :: "string \<Rightarrow> (string \<times> string) option" where
  "scan_number s =
     (let sign = (case s of [] \<Rightarrow> [] | x # _ \<Rightarrow> if x = CHR ''-'' then [x] else []) in
      case scan_int (drop (length sign) s) of
        None \<Rightarrow> None
      | Some (i, r1) \<Rightarrow>
          (case scan_frac r1 of
             None \<Rightarrow> None
           | Some (f, r2) \<Rightarrow>
               (case scan_exp r2 of
                  None \<Rightarrow> None
                | Some (e, r3) \<Rightarrow> Some (sign @ i @ f @ e, r3))))"

definition hexval :: "char \<Rightarrow> nat option" where
  "hexval c =
     (if isDigit c then Some (byte c - 0x30)
      else if 0x61 \<le> byte c \<and> byte c \<le> 0x66 then Some (byte c - 0x61 + 10)
      else if 0x41 \<le> byte c \<and> byte c \<le> 0x46 then Some (byte c - 0x41 + 10)
      else None)"

text \<open>\<^verbatim>\<open>getu4\<close>: the number a \<^verbatim>\<open>\uXXXX\<close> escape at the head of the input denotes.\<close>

definition getu4 :: "string \<Rightarrow> nat option" where
  "getu4 s =
     (case s of
        b # u # x1 # x2 # x3 # x4 # _ \<Rightarrow>
          if b = backslash \<and> u = CHR ''u'' then
            (case (hexval x1, hexval x2, hexval x3, hexval x4) of
               (Some h1, Some h2, Some h3, Some h4) \<Rightarrow> Some (((h1 * 16 + h2) * 16 + h3) * 16 + h4)
             | _ \<Rightarrow> None)
          else None
      | _ \<Rightarrow> None)"

definition unescape :: "char \<Rightarrow> char option" where
  "unescape e =
     (if e = dquote \<or> e = backslash \<or> e = CHR ''/'' then Some e
      else if e = CHR ''b'' then Some (CHR 0x08)
      else if e = CHR ''f'' then Some (CHR 0x0C)
      else if e = CHR ''n'' then Some (CHR 0x0A)
      else if e = CHR ''r'' then Some (CHR 0x0D)
      else if e = CHR ''t'' then Some (CHR 0x09)
      else None)"

definition emit :: "string \<Rightarrow> (string \<times> string) option \<Rightarrow> (string \<times> string) option" where
  "emit p r = map_option (\<lambda>(s, rest). (p @ s, rest)) r"

text \<open>
  A string literal from after its opening quote: the text it denotes and the input after
  its closing quote. This is the string states of the scanner (a control character or an
  unknown escape is a syntax error) together with \<^verbatim>\<open>unquote\<close>: escapes are replaced, a
  pair of surrogate escapes is one code point, a lone surrogate and a byte outside UTF-8
  become U+FFFD.
\<close>

fun unquote :: "string \<Rightarrow> (string \<times> string) option" where
  "unquote [] = None"
| "unquote (c # cs) =
     (if c = dquote then Some ([], cs)
      else if c = backslash then
        (case cs of
           [] \<Rightarrow> None
         | e # es \<Rightarrow>
             if e = CHR ''u'' then
               (case getu4 (c # cs) of
                  None \<Rightarrow> None
                | Some rr \<Rightarrow>
                    if 0xD800 \<le> rr \<and> rr < 0xE000 then
                      (case getu4 (drop 4 es) of
                         None \<Rightarrow> emit (EncodeRune RuneError) (unquote (drop 4 es))
                       | Some rr1 \<Rightarrow>
                           if rr < 0xDC00 \<and> 0xDC00 \<le> rr1 \<and> rr1 < 0xE000 then
                             emit (EncodeRune ((rr - 0xD800) * 1024 + (rr1 - 0xDC00) + 0x10000))
                               (unquote (drop 10 es))
                           else emit (EncodeRune RuneError) (unquote (drop 4 es)))
                    else emit (EncodeRune rr) (unquote (drop 4 es)))
             else
               (case unescape e of
                  None \<Rightarrow> None
                | Some x \<Rightarrow> emit [x] (unquote es)))
      else if byte c < 0x20 then None
      else if byte c < 0x80 then emit [c] (unquote cs)
      else
        (case DecodeRune (c # cs) of (rr, w) \<Rightarrow>
           emit (EncodeRune rr) (unquote (drop (w - 1) cs))))"

text \<open>
  The grammar of the scanner, by recursive descent. The first argument bounds the number
  of nested calls; the second is the number of arrays and objects that are open, and
  opening one more than \<^const>\<open>maxNestingDepth\<close> is an error. A result is the syntax tree
  and the input after the value.
\<close>

fun parse_value :: "nat \<Rightarrow> nat \<Rightarrow> string \<Rightarrow> (string jvalue \<times> string) option"
  and parse_elements :: "nat \<Rightarrow> nat \<Rightarrow> string \<Rightarrow> (string jvalue list \<times> string) option"
  and parse_members ::
    "nat \<Rightarrow> nat \<Rightarrow> string \<Rightarrow> ((string \<times> string jvalue) list \<times> string) option" where
  "parse_value 0 dep s = None"
| "parse_value (Suc f) dep s =
     (case skip_ws s of
        [] \<Rightarrow> None
      | c # cs \<Rightarrow>
          if c = CHR ''{'' then
            (if maxNestingDepth \<le> dep then None
             else
               (case skip_ws cs of
                  [] \<Rightarrow> None
                | c' # cs' \<Rightarrow>
                    if c' = CHR ''}'' then Some (JObject [], cs')
                    else
                      (case parse_members f (Suc dep) (c' # cs') of
                         None \<Rightarrow> None
                       | Some (kvs, r) \<Rightarrow> Some (JObject kvs, r))))
          else if c = CHR ''['' then
            (if maxNestingDepth \<le> dep then None
             else
               (case skip_ws cs of
                  [] \<Rightarrow> None
                | c' # cs' \<Rightarrow>
                    if c' = CHR '']'' then Some (JArray [], cs')
                    else
                      (case parse_elements f (Suc dep) (c' # cs') of
                         None \<Rightarrow> None
                       | Some (vs, r) \<Rightarrow> Some (JArray vs, r))))
          else if c = dquote then
            (case unquote cs of
               None \<Rightarrow> None
             | Some (str, r) \<Rightarrow> Some (JString str, r))
          else if c = CHR ''-'' \<or> isDigit c then
            (case scan_number (c # cs) of
               None \<Rightarrow> None
             | Some (lit, r) \<Rightarrow> Some (JNumber lit, r))
          else if take 4 (c # cs) = ''true'' then Some (JBool True, drop 3 cs)
          else if take 5 (c # cs) = ''false'' then Some (JBool False, drop 4 cs)
          else if take 4 (c # cs) = ''null'' then Some (JNull, drop 3 cs)
          else None)"
| "parse_elements 0 dep s = None"
| "parse_elements (Suc f) dep s =
     (case parse_value f dep s of
        None \<Rightarrow> None
      | Some (v, r) \<Rightarrow>
          (case skip_ws r of
             [] \<Rightarrow> None
           | c # cs \<Rightarrow>
               if c = CHR '','' then
                 (case parse_elements f dep cs of
                    None \<Rightarrow> None
                  | Some (vs, r') \<Rightarrow> Some (v # vs, r'))
               else if c = CHR '']'' then Some ([v], cs)
               else None))"
| "parse_members 0 dep s = None"
| "parse_members (Suc f) dep s =
     (case skip_ws s of
        [] \<Rightarrow> None
      | c # cs \<Rightarrow>
          if c \<noteq> dquote then None
          else
            (case unquote cs of
               None \<Rightarrow> None
             | Some (k, r) \<Rightarrow>
                 (case skip_ws r of
                    [] \<Rightarrow> None
                  | c1 # r1 \<Rightarrow>
                      if c1 \<noteq> CHR '':'' then None
                      else
                        (case parse_value f dep r1 of
                           None \<Rightarrow> None
                         | Some (v, r2) \<Rightarrow>
                             (case skip_ws r2 of
                                [] \<Rightarrow> None
                              | c2 # r3 \<Rightarrow>
                                  if c2 = CHR '','' then
                                    (case parse_members f dep r3 of
                                       None \<Rightarrow> None
                                     | Some (kvs, r4) \<Rightarrow> Some ((k, v) # kvs, r4))
                                  else if c2 = CHR ''}'' then Some ([(k, v)], r3)
                                  else None)))))"

text \<open>
  \<^verbatim>\<open>checkValid\<close>: the whole input is one value, with white space around it at most. Two
  nested calls an input byte are enough for every input.
\<close>

definition parse_json :: "string \<Rightarrow> string jvalue option" where
  "parse_json s =
     (case parse_value (2 * length s + 2) 0 s of
        None \<Rightarrow> None
      | Some (v, r) \<Rightarrow> if skip_ws r = [] then Some v else None)"

definition valid_json :: "string \<Rightarrow> bool" where
  "valid_json s \<longleftrightarrow> parse_json s \<noteq> None"

text \<open>
  Storing into a map assigns to the key: a later member of an object replaces an earlier
  member with the same key.
\<close>

fun map_insert :: "string \<Rightarrow> 'v \<Rightarrow> (string \<times> 'v) list \<Rightarrow> (string \<times> 'v) list" where
  "map_insert k v [] = [(k, v)]"
| "map_insert k v (kv # kvs) =
     (if k < fst kv then (k, v) # kv # kvs
      else if k = fst kv then (k, v) # kvs
      else kv # map_insert k v kvs)"

text \<open>
  The value an \<^verbatim>\<open>interface{}\<close> receives for a syntax tree: numbers become float64, and
  the result is \<open>None\<close> when a literal is out of range (\<^verbatim>\<open>Unmarshal\<close> then returns an
  \<^verbatim>\<open>UnmarshalTypeError\<close>).
\<close>

fun decode_value :: "'n floatconv \<Rightarrow> string jvalue \<Rightarrow> 'n jvalue option"
  and decode_list :: "'n floatconv \<Rightarrow> string jvalue list \<Rightarrow> 'n jvalue list option"
  and decode_members ::
    "'n floatconv \<Rightarrow> (string \<times> string jvalue) list \<Rightarrow> (string \<times> 'n jvalue) list
       \<Rightarrow> (string \<times> 'n jvalue) list option" where
  "decode_value fc JNull = Some JNull"
| "decode_value fc (JBool b) = Some (JBool b)"
| "decode_value fc (JNumber lit) = map_option JNumber (parseFloat fc lit)"
| "decode_value fc (JString s) = Some (JString s)"
| "decode_value fc (JArray ts) = map_option JArray (decode_list fc ts)"
| "decode_value fc (JObject kts) = map_option JObject (decode_members fc kts [])"
| "decode_list fc [] = Some []"
| "decode_list fc (t # ts) =
     (case decode_value fc t of
        None \<Rightarrow> None
      | Some v \<Rightarrow> map_option ((#) v) (decode_list fc ts))"
| "decode_members fc [] m = Some m"
| "decode_members fc (kt # kts) m =
     (case decode_value fc (snd kt) of
        None \<Rightarrow> None
      | Some v \<Rightarrow> decode_members fc kts (map_insert (fst kt) v m))"

section \<open>Marshal and Unmarshal at the type JSONData\<close>

datatype json_error = SyntaxError | UnmarshalTypeError | UnsupportedValueError

text \<open>
  \<^verbatim>\<open>json.MarshalIndent(data, "", "  ")\<close> for a \<^verbatim>\<open>JSONData\<close>. A nil map is written as
  \<^verbatim>\<open>null\<close>. The indentation pass scans the compact text, so a value nested deeper than
  \<^const>\<open>maxNestingDepth\<close> is an error.
\<close>

definition MarshalIndent :: "'n floatconv \<Rightarrow> 'n JSONData \<Rightarrow> json_error + string" where
  "MarshalIndent fc data =
     (case data of
        None \<Rightarrow> Inr ''null''
      | Some m \<Rightarrow>
          (case format_members fc m of
             None \<Rightarrow> Inl UnsupportedValueError
           | Some t \<Rightarrow>
               if maxNestingDepth < depth (JObject t) then Inl SyntaxError
               else Inr (indent_value 0 (JObject t))))"

text \<open>
  \<^verbatim>\<open>json.NewEncoder(w).Encode(data)\<close>: the compact text and a line break.
\<close>

definition Encode :: "'n floatconv \<Rightarrow> 'n JSONData \<Rightarrow> json_error + string" where
  "Encode fc data =
     (case data of
        None \<Rightarrow> Inr (''null'' @ [CHR 0x0A])
      | Some m \<Rightarrow>
          (case format_members fc m of
             None \<Rightarrow> Inl UnsupportedValueError
           | Some t \<Rightarrow> Inr (compact_value (JObject t) @ [CHR 0x0A])))"

text \<open>
  \<^verbatim>\<open>json.Unmarshal(content, &data)\<close> where \<^verbatim>\<open>data\<close> is a nil \<^verbatim>\<open>JSONData\<close>, as it is at both
  calls in main.go. The input is checked first (a \<^verbatim>\<open>SyntaxError\<close>). An object fills a
  new map; \<^verbatim>\<open>null\<close> leaves the variable nil and is no error; an array, a string, a number
  or a boolean cannot be stored in a map (\<^verbatim>\<open>UnmarshalTypeError\<close>).
\<close>

definition Unmarshal :: "'n floatconv \<Rightarrow> string \<Rightarrow> json_error + 'n JSONData" where
  "Unmarshal fc content =
     (case parse_json content of
        None \<Rightarrow> Inl SyntaxError
      | Some JNull \<Rightarrow> Inr None
      | Some (JObject kts) \<Rightarrow>
          (case decode_members fc kts [] of
             None \<Rightarrow> Inl UnmarshalTypeError
           | Some m \<Rightarrow> Inr (Some m))
      | Some _ \<Rightarrow> Inl UnmarshalTypeError)"

section \<open>The file system\<close>

text \<open>
  The files by path. What the operating system does beyond that is an argument of every
  call: \<^verbatim>\<open>os.Stat\<close> and \<^verbatim>\<open>os.ReadFile\<close> can fail on a file that exists, and
  \<^verbatim>\<open>os.WriteFile\<close> opens the file with \<^verbatim>\<open>O_CREATE|O_TRUNC\<close> and then writes, so it can
  fail before the file is touched or after it was truncated, with a prefix of the data
  written.
\<close>

type_synonym filesystem = "string \<rightharpoonup> string"

datatype os_error = ErrNotExist | ErrOther

datatype write_fault = NoWriteFault | OpenFault | WriteFault nat

record faults =
  stat_fails :: bool
  read_fails :: bool
  write_fault :: write_fault

definition no_faults :: faults where
  "no_faults = \<lparr>stat_fails = False, read_fails = False, write_fault = NoWriteFault\<rparr>"

definition os_Stat :: "faults \<Rightarrow> filesystem \<Rightarrow> string \<Rightarrow> os_error option" where
  "os_Stat io fs path =
     (if stat_fails io then Some ErrOther
      else case fs path of None \<Rightarrow> Some ErrNotExist | Some _ \<Rightarrow> None)"

definition os_ReadFile :: "faults \<Rightarrow> filesystem \<Rightarrow> string \<Rightarrow> os_error + string" where
  "os_ReadFile io fs path =
     (case fs path of
        None \<Rightarrow> Inl ErrNotExist
      | Some content \<Rightarrow> if read_fails io then Inl ErrOther else Inr content)"

definition os_WriteFile ::
    "faults \<Rightarrow> filesystem \<Rightarrow> string \<Rightarrow> string \<Rightarrow> os_error option \<times> filesystem" where
  "os_WriteFile io fs path data =
     (case write_fault io of
        NoWriteFault \<Rightarrow> (None, fs(path \<mapsto> data))
      | OpenFault \<Rightarrow> (Some ErrOther, fs)
      | WriteFault n \<Rightarrow> (Some ErrOther, fs(path \<mapsto> take n data)))"

section \<open>The Store\<close>

text \<open>
  \<^verbatim>\<open>type Store struct\<close> (main.go, lines 24 to 28). The calls are modelled one at a time,
  so the mutex has no field. The errors are the four \<^verbatim>\<open>fmt.Errorf\<close> wrappers of
  \<^verbatim>\<open>readDataFile\<close> and \<^verbatim>\<open>saveDataFile\<close>, each with the error it wraps.
\<close>

record Store =
  filepath :: string

datatype store_error =
    ReadError os_error
  | ParseError json_error
  | SerializeError json_error
  | WriteError os_error

text \<open>\<^verbatim>\<open>readDataFile\<close> (main.go, lines 44 to 63).\<close>

definition readDataFile ::
    "'n floatconv \<Rightarrow> faults \<Rightarrow> filesystem \<Rightarrow> Store \<Rightarrow> store_error + 'n JSONData" where
  "readDataFile fc io fs s =
     (case os_ReadFile io fs (filepath s) of
        Inl err \<Rightarrow> Inl (ReadError err)
      | Inr content \<Rightarrow>
          if length content = 0 then Inr (Some [])
          else
            (case Unmarshal fc content of
               Inl err \<Rightarrow> Inl (ParseError err)
             | Inr data \<Rightarrow> Inr data))"

text \<open>
  \<^verbatim>\<open>saveDataFile\<close> (main.go, lines 67 to 83): the error, if any, and the file system
  after the call.
\<close>

definition saveDataFile ::
    "'n floatconv \<Rightarrow> faults \<Rightarrow> filesystem \<Rightarrow> Store \<Rightarrow> 'n JSONData
       \<Rightarrow> store_error option \<times> filesystem" where
  "saveDataFile fc io fs s data =
     (case MarshalIndent fc data of
        Inl err \<Rightarrow> (Some (SerializeError err), fs)
      | Inr jsonData \<Rightarrow>
          (case os_WriteFile io fs (filepath s) jsonData of
             (Some err, fs') \<Rightarrow> (Some (WriteError err), fs')
           | (None, fs') \<Rightarrow> (None, fs')))"

text \<open>
  \<^verbatim>\<open>NewStore\<close> (main.go, lines 31 to 41). \<^verbatim>\<open>log.Fatalf\<close> ends the process: \<open>Fatal\<close>.
\<close>

datatype startup = Fatal store_error | Started Store

definition NewStore ::
    "'n floatconv \<Rightarrow> faults \<Rightarrow> filesystem \<Rightarrow> string \<Rightarrow> startup \<times> filesystem" where
  "NewStore fc io fs path =
     (let s = \<lparr>filepath = path\<rparr> in
      if os_Stat io fs path = Some ErrNotExist then
        (case saveDataFile fc io fs s (Some []) of
           (Some err, fs') \<Rightarrow> (Fatal err, fs')
         | (None, fs') \<Rightarrow> (Started s, fs'))
      else (Started s, fs))"

section \<open>The handlers of /data\<close>

text \<open>
  A request is its method and its body; \<open>None\<close> is a body that \<^verbatim>\<open>io.ReadAll\<close> fails to
  read. A response is the status line, the content type and the body written.
\<close>

record request =
  Method :: string
  Body :: "string option"

record response =
  status :: nat
  content_type :: string
  written :: string

definition http_Error :: "string \<Rightarrow> nat \<Rightarrow> response" where
  "http_Error msg code =
     \<lparr>status = code, content_type = ''text/plain; charset=utf-8'', written = msg @ [CHR 0x0A]\<rparr>"

text \<open>The verb \<^verbatim>\<open>%d\<close> of \<^verbatim>\<open>fmt.Fprintf\<close> on a status code.\<close>

fun show_nat :: "nat \<Rightarrow> string" where
  "show_nat n =
     (if n < 10 then [char_of (0x30 + n)]
      else show_nat (n div 10) @ [char_of (0x30 + n mod 10)])"

text \<open>\<^verbatim>\<open>getDataHandler\<close> (main.go, lines 86 to 106).\<close>

definition getDataHandler ::
    "'n floatconv \<Rightarrow> faults \<Rightarrow> filesystem \<Rightarrow> Store \<Rightarrow> request \<Rightarrow> response \<times> filesystem" where
  "getDataHandler fc io fs s r =
     (if Method r \<noteq> ''GET'' then (http_Error ''Method Not Allowed'' 405, fs)
      else
        (case readDataFile fc io fs s of
           Inl err \<Rightarrow> (http_Error ''Internal Server Error'' 500, fs)
         | Inr data \<Rightarrow>
             (\<lparr>status = 200, content_type = ''application/json'',
               written = (case Encode fc data of Inl err \<Rightarrow> [] | Inr b \<Rightarrow> b)\<rparr>, fs)))"

text \<open>\<^verbatim>\<open>updateDataHandler\<close> (main.go, lines 109 to 145).\<close>

definition updateDataHandler ::
    "'n floatconv \<Rightarrow> faults \<Rightarrow> filesystem \<Rightarrow> Store \<Rightarrow> request \<Rightarrow> response \<times> filesystem" where
  \<open>updateDataHandler fc io fs s r =
     (if Method r \<noteq> ''POST'' \<and> Method r \<noteq> ''PUT'' then
        (http_Error ''Method Not Allowed'' 405, fs)
      else
        (case Body r of
           None \<Rightarrow> (http_Error ''Could not read request body'' 400, fs)
         | Some b \<Rightarrow>
             (case Unmarshal fc b of
                Inl err \<Rightarrow> (http_Error ''Invalid JSON format in request body'' 400, fs)
              | Inr newData \<Rightarrow>
                  (case saveDataFile fc io fs s newData of
                     (Some err, fs') \<Rightarrow>
                       (http_Error ''Internal Server Error: Failed to save data'' 500, fs')
                   | (None, fs') \<Rightarrow>
                       (let st = (if Method r = ''POST'' then 201 else 200) in
                        (\<lparr>status = st, content_type = ''application/json'',
                          written = ''{"message": "Data successfully stored/updated", "status": ''
                                      @ show_nat st @ ''}''\<rparr>, fs'))))))\<close>

text \<open>The handler \<^verbatim>\<open>main\<close> registers for the path /data (main.go, lines 153 to 162).\<close>

definition data_route ::
    "'n floatconv \<Rightarrow> faults \<Rightarrow> filesystem \<Rightarrow> Store \<Rightarrow> request \<Rightarrow> response \<times> filesystem" where
  "data_route fc io fs store r =
     (if Method r = ''GET'' then getDataHandler fc io fs store r
      else if Method r = ''POST'' \<or> Method r = ''PUT'' then updateDataHandler fc io fs store r
      else (http_Error ''Method Not Allowed'' 405, fs))"

section \<open>An instance of the number conversions\<close>

text \<open>
  The integers as numbers: an integer is written in decimal, as Go writes a float64 of
  that value below \<open>10\<^sup>2\<^sup>1\<close>, and a literal of digits with an optional minus sign is
  read as the integer it denotes. This instance does not cover the other literals.
\<close>

definition show_int :: "int \<Rightarrow> string" where
  "show_int i = (if i < 0 then CHR ''-'' # show_nat (nat (- i)) else show_nat (nat i))"

definition read_nat :: "string \<Rightarrow> nat" where
  "read_nat ds = foldl (\<lambda>a c. 10 * a + (byte c - 0x30)) 0 ds"

definition read_int :: "string \<Rightarrow> int option" where
  "read_int lit =
     (case lit of
        [] \<Rightarrow> None
      | c # cs \<Rightarrow>
          if c = CHR ''-'' \<and> cs \<noteq> [] \<and> list_all isDigit cs then Some (- int (read_nat cs))
          else if list_all isDigit lit then Some (int (read_nat lit))
          else None)"

definition int_conv :: "int floatconv" where
  "int_conv = \<lparr>parseFloat = read_int, formatFloat = (\<lambda>i. Some (show_int i))\<rparr>"

section \<open>Shapes of a JSON text\<close>

text \<open>A top-level value that is an array, a string, a number or a boolean.\<close>

definition array_or_scalar :: "string jvalue \<Rightarrow> bool" where
  "array_or_scalar t = (case t of JNull \<Rightarrow> False | JObject _ \<Rightarrow> False | _ \<Rightarrow> True)"

text \<open>A file content that is empty or the text of a JSON object.\<close>

definition object_or_empty :: "string \<Rightarrow> bool" where
  "object_or_empty content \<longleftrightarrow>
     content = [] \<or> (case parse_json content of Some (JObject _) \<Rightarrow> True | _ \<Rightarrow> False)"

text \<open>The response of \<^verbatim>\<open>updateDataHandler\<close> after a successful save.\<close>

definition stored_envelope :: "nat \<Rightarrow> response" where
  \<open>stored_envelope st =
     \<lparr>status = st, content_type = ''application/json'',
      written = ''{"message": "Data successfully stored/updated", "status": '' @ show_nat st @ ''}''\<rparr>\<close>

text \<open>The Store of \<^verbatim>\<open>main\<close>: \<^verbatim>\<open>const dataFilePath = "data.json"\<close> (main.go, line 17).\<close>

abbreviation store0 :: Store where
  "store0 \<equiv> \<lparr>filepath = ''data.json''\<rparr>"

section \<open>The codec on small texts\<close>

lemma parse_json_empty_object: "parse_json ''{}'' = Some (JObject [])"
  by code_simp

lemma parse_json_null: "parse_json ''null'' = Some JNull"
  by code_simp

lemma parse_json_empty_array: "parse_json ''[]'' = Some (JArray [])"
  by code_simp

lemma Unmarshal_empty_object: "Unmarshal fc ''{}'' = Inr (Some [])"
  by (simp add: Unmarshal_def parse_json_empty_object)

lemma Unmarshal_null: "Unmarshal fc ''null'' = Inr None"
  by (simp add: Unmarshal_def parse_json_null)

lemma MarshalIndent_empty_object: "MarshalIndent fc (Some []) = Inr ''{}''"
  by (simp add: MarshalIndent_def maxNestingDepth_def)

lemma MarshalIndent_nil: "MarshalIndent fc None = Inr ''null''"
  by (simp add: MarshalIndent_def)

lemma show_nat_201: "show_nat 201 = ''201''"
  by code_simp

lemma show_nat_200: "show_nat 200 = ''200''"
  by code_simp


lemma parse_json_42: "parse_json ''42'' = Some (JNumber ''42'')"
  by code_simp

lemma parse_json_open_brace: "parse_json ''{'' = None"
  by code_simp

lemma parse_json_member_null: "parse_json ''{\"a\": null}'' = Some (JObject [(''a'', JNull)])"
  by code_simp

section \<open>Facts about Unmarshal, the Store and the handlers\<close>

lemma Unmarshal_invalid: "\<not> valid_json b \<Longrightarrow> Unmarshal fc b = Inl SyntaxError"
  by (simp add: Unmarshal_def valid_json_def)


lemma Unmarshal_Inr_cases:
  "Unmarshal fc b = Inr d \<Longrightarrow>
     (parse_json b = Some JNull \<and> d = None)
     \<or> (\<exists>kts m. parse_json b = Some (JObject kts) \<and> decode_members fc kts [] = Some m \<and> d = Some m)"
  unfolding Unmarshal_def
  by (simp split: option.splits jvalue.splits) metis

lemma saveDataFile_no_fault:
  "write_fault io = NoWriteFault \<Longrightarrow> MarshalIndent fc d = Inr j \<Longrightarrow>
     saveDataFile fc io fs s d = (None, fs(filepath s \<mapsto> j))"
  by (simp add: saveDataFile_def os_WriteFile_def)

lemma saveDataFile_cases:
  "saveDataFile fc io fs s d =
     (case MarshalIndent fc d of
        Inl e \<Rightarrow> (Some (SerializeError e), fs)
      | Inr j \<Rightarrow>
          (case write_fault io of
             NoWriteFault \<Rightarrow> (None, fs(filepath s \<mapsto> j))
           | OpenFault \<Rightarrow> (Some (WriteError ErrOther), fs)
           | WriteFault n \<Rightarrow> (Some (WriteError ErrOther), fs(filepath s \<mapsto> take n j))))"
  by (simp add: saveDataFile_def os_WriteFile_def split: sum.splits write_fault.splits)

lemma updateDataHandler_stored:
  assumes "Method r = ''POST'' \<or> Method r = ''PUT''" and "Body r = Some b"
    and "Unmarshal fc b = Inr d" and "saveDataFile fc io fs s d = (None, fs')"
  shows "updateDataHandler fc io fs s r =
           (stored_envelope (if Method r = ''POST'' then 201 else 200), fs')"
  using assms by (auto simp: updateDataHandler_def stored_envelope_def Let_def)

lemma updateDataHandler_rejected:
  assumes "Method r = ''POST'' \<or> Method r = ''PUT''" and "Body r = Some b"
    and "Unmarshal fc b = Inl e"
  shows "updateDataHandler fc io fs s r =
           (http_Error ''Invalid JSON format in request body'' 400, fs)"
  using assms by (auto simp: updateDataHandler_def)

lemma data_route_update:
  "Method r = ''POST'' \<or> Method r = ''PUT'' \<Longrightarrow>
     data_route fc io fs s r = updateDataHandler fc io fs s r"
  by (auto simp: data_route_def)

lemma stored_envelope_201:
  "stored_envelope 201 = \<lparr>status = 201, content_type = ''application/json'',
     written = ''{\"message\": \"Data successfully stored/updated\", \"status\": 201}''\<rparr>"
  by (simp add: stored_envelope_def show_nat_201 del: show_nat.simps)

lemma stored_envelope_200:
  "stored_envelope 200 = \<lparr>status = 200, content_type = ''application/json'',
     written = ''{\"message\": \"Data successfully stored/updated\", \"status\": 200}''\<rparr>"
  by (simp add: stored_envelope_def show_nat_200 del: show_nat.simps)


lemma save_nil_no_fault:
  "write_fault io = NoWriteFault \<Longrightarrow>
     saveDataFile fc io fs s None = (None, fs(filepath s \<mapsto> ''null''))"
  by (simp add: saveDataFile_cases MarshalIndent_nil)

lemma Unmarshal_Inl_iff:
  "(\<exists>e. Unmarshal fc c = Inl e) \<longleftrightarrow>
     (\<not> valid_json c
      \<or> (\<exists>t. parse_json c = Some t \<and> array_or_scalar t)
      \<or> (\<exists>kts. parse_json c = Some (JObject kts) \<and> decode_members fc kts [] = None))"
  unfolding Unmarshal_def valid_json_def array_or_scalar_def
  by (simp split: option.splits jvalue.splits)

lemma Unmarshal_Inr_iff:
  "(\<exists>d. Unmarshal fc c = Inr d) \<longleftrightarrow>
     (parse_json c = Some JNull
      \<or> (\<exists>kts m. parse_json c = Some (JObject kts) \<and> decode_members fc kts [] = Some m))"
  unfolding Unmarshal_def
  by (simp split: option.splits jvalue.splits)

lemma readDataFile_cases:
  "readDataFile fc io fs s =
     (case fs (filepath s) of
        None \<Rightarrow> Inl (ReadError ErrNotExist)
      | Some content \<Rightarrow>
          if read_fails io then Inl (ReadError ErrOther)
          else if content = [] then Inr (Some [])
          else (case Unmarshal fc content of Inl e \<Rightarrow> Inl (ParseError e) | Inr d \<Rightarrow> Inr d))"
  by (simp add: readDataFile_def os_ReadFile_def split: option.splits)

lemma getDataHandler_keeps_files: "snd (getDataHandler fc io fs s r) = fs"
  by (simp add: getDataHandler_def split: sum.splits)

lemma saveDataFile_failed_unchanged:
  assumes "saveDataFile fc io fs s d = (Some e, fs')" and "\<forall>n. write_fault io \<noteq> WriteFault n"
  shows "fs' = fs"
  using assms
  by (cases "MarshalIndent fc d"; cases "write_fault io") (auto simp: saveDataFile_cases)

lemma saveDataFile_done:
  assumes "saveDataFile fc io fs s d = (None, fs')"
  shows "\<exists>j. MarshalIndent fc d = Inr j \<and> fs' = fs(filepath s \<mapsto> j)"
  using assms
  by (cases "MarshalIndent fc d"; cases "write_fault io") (auto simp: saveDataFile_cases)

lemma updateDataHandler_failed_unchanged:
  assumes "updateDataHandler fc io fs s r = (resp, fs')"
    and "status resp \<noteq> 200" and "status resp \<noteq> 201"
    and "\<forall>n. write_fault io \<noteq> WriteFault n"
  shows "fs' = fs"
proof (cases "Method r \<noteq> ''POST'' \<and> Method r \<noteq> ''PUT''")
  case True
  then show ?thesis using assms(1) by (simp add: updateDataHandler_def)
next
  case m: False
  show ?thesis
  proof (cases "Body r")
    case None
    then show ?thesis using assms(1) m by (auto simp: updateDataHandler_def)
  next
    case (Some b)
    show ?thesis
    proof (cases "Unmarshal fc b")
      case (Inl e)
      then show ?thesis using assms(1) m Some by (auto simp: updateDataHandler_def)
    next
      case (Inr d)
      obtain err fs1 where sv: "saveDataFile fc io fs s d = (err, fs1)"
        by (cases "saveDataFile fc io fs s d")
      show ?thesis
      proof (cases err)
        case None
        then show ?thesis
          using assms(1,2,3) m Some Inr sv by (auto simp: updateDataHandler_def Let_def)
      next
        case (Some e)
        then have "fs1 = fs"
          using saveDataFile_failed_unchanged [of fc io fs s d e fs1] sv assms(4) by simp
        then show ?thesis
          using assms(1) m \<open>Body r = Some b\<close> Inr sv Some by (auto simp: updateDataHandler_def)
      qed
    qed
  qed
qed

lemma data_route_failed_unchanged:
  assumes "data_route fc io fs s r = (resp, fs')"
    and "status resp \<noteq> 200" and "status resp \<noteq> 201"
    and "\<forall>n. write_fault io \<noteq> WriteFault n"
  shows "fs' = fs"
proof (cases "Method r = ''GET''")
  case True
  then have "snd (data_route fc io fs s r) = fs"
    by (simp add: data_route_def getDataHandler_keeps_files)
  then show ?thesis using assms(1) by simp
next
  case g: False
  show ?thesis
  proof (cases "Method r = ''POST'' \<or> Method r = ''PUT''")
    case True
    then show ?thesis
      using assms updateDataHandler_failed_unchanged [of fc io fs s r resp fs']
      by (simp add: data_route_update)
  next
    case False
    then show ?thesis using assms(1) g by (simp add: data_route_def)
  qed
qed

lemma data_route_invalid:
  assumes "m = ''POST'' \<or> m = ''PUT''" and "\<not> valid_json b"
  shows "data_route fc io fs s \<lparr>Method = m, Body = Some b\<rparr>
           = (http_Error ''Invalid JSON format in request body'' 400, fs)"
  using assms updateDataHandler_rejected
    [of "\<lparr>Method = m, Body = Some b\<rparr>" b fc SyntaxError io fs s]
  by (simp add: data_route_update Unmarshal_invalid)



section \<open>The claims\<close>

text \<open>
  Claim C2, as stated, fails: a successful \<^verbatim>\<open>saveDataFile\<close> of the nil map leaves the
  four bytes \<^verbatim>\<open>null\<close> in the file, which is neither empty nor an object.
\<close>

theorem replace_nil_persists_null:
  "saveDataFile int_conv no_faults [''data.json'' \<mapsto> ''{}''] store0 None
     = (None, [''data.json'' \<mapsto> ''null''])
   \<and> \<not> object_or_empty ''null''"
  by (simp add: save_nil_no_fault no_faults_def object_or_empty_def parse_json_null)

text \<open>
  Claim C3, as stated, fails in its general part: when \<^verbatim>\<open>os.WriteFile\<close> fails after it
  has truncated the file, the request is answered with 500 and the stored document is
  lost (the file is empty, which reads as the empty object).
\<close>

theorem failed_write_truncates_file:
  "data_route int_conv (no_faults\<lparr>write_fault := WriteFault 0\<rparr>)
       [''data.json'' \<mapsto> ''{\"a\": null}''] store0 \<lparr>Method = ''PUT'', Body = Some ''{}''\<rparr>
     = (http_Error ''Internal Server Error: Failed to save data'' 500, [''data.json'' \<mapsto> []])
   \<and> readDataFile int_conv no_faults [''data.json'' \<mapsto> ''{\"a\": null}''] store0
       = Inr (Some [(''a'', JNull)])
   \<and> readDataFile int_conv no_faults [''data.json'' \<mapsto> []] store0 = Inr (Some [])"
proof -
  have "saveDataFile int_conv (no_faults\<lparr>write_fault := WriteFault 0\<rparr>)
       [''data.json'' \<mapsto> ''{\"a\": null}''] store0 (Some [])
     = (Some (WriteError ErrOther), [''data.json'' \<mapsto> []])"
    by (simp add: saveDataFile_cases MarshalIndent_empty_object no_faults_def)
  then have a: "data_route int_conv (no_faults\<lparr>write_fault := WriteFault 0\<rparr>)
       [''data.json'' \<mapsto> ''{\"a\": null}''] store0 \<lparr>Method = ''PUT'', Body = Some ''{}''\<rparr>
     = (http_Error ''Internal Server Error: Failed to save data'' 500, [''data.json'' \<mapsto> []])"
    by (simp add: data_route_update updateDataHandler_def Unmarshal_empty_object)
  have b: "readDataFile int_conv no_faults [''data.json'' \<mapsto> ''{\"a\": null}''] store0
       = Inr (Some [(''a'', JNull)])"
    by (simp add: readDataFile_cases no_faults_def Unmarshal_def parse_json_member_null)
  have c: "readDataFile int_conv no_faults [''data.json'' \<mapsto> []] store0 = Inr (Some [])"
    by (simp add: readDataFile_cases no_faults_def)
  show ?thesis using a b c by simp
qed

text \<open>
  Claim C3 (amended). A POST or PUT whose body is not valid JSON is answered with 400 and
  leaves the files as they were. A read never changes the files. A save or a request that
  fails leaves the files as they were unless the write failed after the file was opened;
  a save that succeeds has written the whole document.
\<close>

theorem failed_request_keeps_file:
  "((m = ''POST'' \<or> m = ''PUT'') \<and> \<not> valid_json b \<longrightarrow>
       data_route fc io fs s \<lparr>Method = m, Body = Some b\<rparr>
         = (http_Error ''Invalid JSON format in request body'' 400, fs)
       \<and> status (http_Error ''Invalid JSON format in request body'' 400) = 400)
   \<and> snd (getDataHandler fc io fs s r) = fs
   \<and> (saveDataFile fc io fs s d = (Some e, fs') \<and> (\<forall>n. write_fault io \<noteq> WriteFault n)
       \<longrightarrow> fs' = fs)
   \<and> (data_route fc io fs s r = (resp, fs') \<and> status resp \<noteq> 200 \<and> status resp \<noteq> 201
         \<and> (\<forall>n. write_fault io \<noteq> WriteFault n)
       \<longrightarrow> fs' = fs)
   \<and> (saveDataFile fc io fs s d = (None, fs')
       \<longrightarrow> (\<exists>j. MarshalIndent fc d = Inr j \<and> fs' = fs(filepath s \<mapsto> j)))"
  using data_route_invalid [of m b fc io fs s] getDataHandler_keeps_files [of fc io fs s r]
    saveDataFile_failed_unchanged [of fc io fs s d e fs']
    data_route_failed_unchanged [of fc io fs s r resp fs']
    saveDataFile_done [of fc io fs s d fs']
  by (simp add: http_Error_def)

theorem failed_request_keeps_file_witness:
  "data_route int_conv no_faults [''data.json'' \<mapsto> ''{}''] store0
       \<lparr>Method = ''POST'', Body = Some ''{''\<rparr>
     = (http_Error ''Invalid JSON format in request body'' 400, [''data.json'' \<mapsto> ''{}''])
   \<and> snd (data_route int_conv (no_faults\<lparr>write_fault := OpenFault\<rparr>)
            [''data.json'' \<mapsto> ''{}''] store0 \<lparr>Method = ''POST'', Body = Some ''null''\<rparr>)
      = [''data.json'' \<mapsto> ''{}'']"
proof -
  have inv: "\<not> valid_json ''{''" by (simp add: valid_json_def parse_json_open_brace)
  have nf: "\<forall>n. write_fault (no_faults\<lparr>write_fault := OpenFault\<rparr>) \<noteq> WriteFault n"
    by (simp add: no_faults_def)
  obtain resp fs' where dr:
    "data_route int_conv (no_faults\<lparr>write_fault := OpenFault\<rparr>)
       [''data.json'' \<mapsto> ''{}''] store0 \<lparr>Method = ''POST'', Body = Some ''null''\<rparr> = (resp, fs')"
    by (cases "data_route int_conv (no_faults\<lparr>write_fault := OpenFault\<rparr>)
       [''data.json'' \<mapsto> ''{}''] store0 \<lparr>Method = ''POST'', Body = Some ''null''\<rparr>")
  have st: "status resp = 500"
    using dr
    by (auto simp: data_route_update updateDataHandler_def Unmarshal_null saveDataFile_cases
        MarshalIndent_nil no_faults_def http_Error_def)
  show ?thesis
    using failed_request_keeps_file [of "''POST''" "''{''" int_conv no_faults
        "[''data.json'' \<mapsto> ''{}'']" store0]
      failed_request_keeps_file [of _ _ int_conv "no_faults\<lparr>write_fault := OpenFault\<rparr>"
        "[''data.json'' \<mapsto> ''{}'']" store0 "\<lparr>Method = ''POST'', Body = Some ''null''\<rparr>"
        _ _ fs' resp]
      inv nf dr st
    by simp
qed

text \<open>
  Claim C4, as stated, fails: the file content \<^verbatim>\<open>[]\<close> is not empty and is valid JSON,
  and \<^verbatim>\<open>readDataFile\<close> fails on it with the error of \<^verbatim>\<open>json.Unmarshal\<close>.
\<close>

theorem array_file_is_parse_error:
  "valid_json ''[]''
   \<and> readDataFile int_conv no_faults [''data.json'' \<mapsto> ''[]''] store0
       = Inl (ParseError UnmarshalTypeError)"
  by (simp add: valid_json_def parse_json_empty_array readDataFile_def os_ReadFile_def
      no_faults_def Unmarshal_def)

text \<open>
  Claim C4 (amended). \<^verbatim>\<open>readDataFile\<close> fails with a read error exactly when the file is
  absent or cannot be read; with a parse error exactly when the content is not empty and
  \<^verbatim>\<open>json.Unmarshal\<close> rejects it, that is when it is not valid JSON, or is an array, a
  string, a number or a boolean, or is an object with a number out of range; and it
  succeeds otherwise. It never fails with one of the errors of \<^verbatim>\<open>saveDataFile\<close>.
\<close>

theorem read_error_taxonomy:
  "((\<exists>e. readDataFile fc io fs s = Inl (ReadError e))
      \<longleftrightarrow> (fs (filepath s) = None \<or> read_fails io))
   \<and> ((\<exists>e. readDataFile fc io fs s = Inl (ParseError e))
      \<longleftrightarrow> (\<exists>content. fs (filepath s) = Some content \<and> \<not> read_fails io \<and> content \<noteq> []
            \<and> (\<not> valid_json content
                \<or> (\<exists>t. parse_json content = Some t \<and> array_or_scalar t)
                \<or> (\<exists>kts. parse_json content = Some (JObject kts)
                      \<and> decode_members fc kts [] = None))))
   \<and> ((\<exists>d. readDataFile fc io fs s = Inr d)
      \<longleftrightarrow> (\<exists>content. fs (filepath s) = Some content \<and> \<not> read_fails io
            \<and> (content = [] \<or> parse_json content = Some JNull
                \<or> (\<exists>kts m. parse_json content = Some (JObject kts)
                      \<and> decode_members fc kts [] = Some m))))
   \<and> (\<forall>e. readDataFile fc io fs s \<noteq> Inl (SerializeError e))
   \<and> (\<forall>e. readDataFile fc io fs s \<noteq> Inl (WriteError e))"
proof (cases "fs (filepath s)")
  case None
  then show ?thesis by (simp add: readDataFile_cases)
next
  case (Some content)
  show ?thesis
  proof (cases "read_fails io \<or> content = []")
    case True
    then show ?thesis using Some by (auto simp: readDataFile_cases)
  next
    case False
    then have rd: "readDataFile fc io fs s
        = (case Unmarshal fc content of Inl e \<Rightarrow> Inl (ParseError e) | Inr d \<Rightarrow> Inr d)"
      using Some by (simp add: readDataFile_cases)
    have l: "(\<exists>e. readDataFile fc io fs s = Inl (ParseError e)) \<longleftrightarrow> (\<exists>e. Unmarshal fc content = Inl e)"
      by (cases "Unmarshal fc content") (simp_all add: rd)
    have r: "(\<exists>d. readDataFile fc io fs s = Inr d) \<longleftrightarrow> (\<exists>d. Unmarshal fc content = Inr d)"
      by (cases "Unmarshal fc content") (simp_all add: rd)
    have o: "\<forall>e. readDataFile fc io fs s \<noteq> Inl (ReadError e)"
      "\<forall>e. readDataFile fc io fs s \<noteq> Inl (SerializeError e)"
      "\<forall>e. readDataFile fc io fs s \<noteq> Inl (WriteError e)"
      by (cases "Unmarshal fc content"; simp add: rd)+
    show ?thesis
      using False Some o
      by (simp add: l r Unmarshal_Inl_iff Unmarshal_Inr_iff)
  qed
qed

theorem read_error_taxonomy_witness:
  "(\<exists>e. readDataFile int_conv no_faults Map.empty store0 = Inl (ReadError e))
   \<and> (\<exists>e. readDataFile int_conv no_faults [''data.json'' \<mapsto> ''{''] store0 = Inl (ParseError e))
   \<and> (\<exists>e. readDataFile int_conv no_faults [''data.json'' \<mapsto> ''42''] store0 = Inl (ParseError e))
   \<and> (\<exists>d. readDataFile int_conv no_faults [''data.json'' \<mapsto> ''{}''] store0 = Inr d)"
  using read_error_taxonomy [of int_conv no_faults Map.empty store0]
    read_error_taxonomy [of int_conv no_faults "[''data.json'' \<mapsto> ''{'']" store0]
    read_error_taxonomy [of int_conv no_faults "[''data.json'' \<mapsto> ''42'']" store0]
    read_error_taxonomy [of int_conv no_faults "[''data.json'' \<mapsto> ''{}'']" store0]
  by (simp add: no_faults_def valid_json_def parse_json_open_brace parse_json_42
      parse_json_empty_object array_or_scalar_def)

text \<open>
  Claim C5. When no file exists at the path and the write succeeds, \<^verbatim>\<open>NewStore\<close> leaves
  the text \<^verbatim>\<open>{}\<close> in the file and a read returns the empty object; when the write fails,
  startup is fatal.
\<close>

theorem initialization_writes_empty_object:
  assumes "fs path = None" and "\<not> stat_fails io"
  shows "(write_fault io = NoWriteFault \<longrightarrow>
            NewStore fc io fs path = (Started \<lparr>filepath = path\<rparr>, fs(path \<mapsto> ''{}''))
            \<and> (\<forall>io'. \<not> read_fails io' \<longrightarrow>
                  readDataFile fc io' (fs(path \<mapsto> ''{}'')) \<lparr>filepath = path\<rparr> = Inr (Some [])))
       \<and> (write_fault io \<noteq> NoWriteFault \<longrightarrow>
            (\<exists>err. fst (NewStore fc io fs path) = Fatal (WriteError err)))"
proof -
  have stat: "os_Stat io fs path = Some ErrNotExist"
    using assms by (simp add: os_Stat_def)
  have ok: "write_fault io = NoWriteFault \<Longrightarrow>
      NewStore fc io fs path = (Started \<lparr>filepath = path\<rparr>, fs(path \<mapsto> ''{}''))"
    using stat by (simp add: NewStore_def saveDataFile_cases MarshalIndent_empty_object)
  have rd: "\<not> read_fails io' \<Longrightarrow>
      readDataFile fc io' (fs(path \<mapsto> ''{}'')) \<lparr>filepath = path\<rparr> = Inr (Some [])" for io'
    by (simp add: readDataFile_def os_ReadFile_def Unmarshal_empty_object)
  have bad: "write_fault io \<noteq> NoWriteFault \<Longrightarrow>
      \<exists>err. fst (NewStore fc io fs path) = Fatal (WriteError err)"
    using stat
    by (cases "write_fault io")
       (simp_all add: NewStore_def saveDataFile_cases MarshalIndent_empty_object)
  show ?thesis using ok rd bad by blast
qed

theorem initialization_writes_empty_object_witness:
  "NewStore int_conv no_faults Map.empty ''data.json'' = (Started store0, [''data.json'' \<mapsto> ''{}''])
   \<and> readDataFile int_conv no_faults [''data.json'' \<mapsto> ''{}''] store0 = Inr (Some [])
   \<and> (\<exists>err. fst (NewStore int_conv (no_faults\<lparr>write_fault := OpenFault\<rparr>) Map.empty ''data.json'')
          = Fatal (WriteError err))"
proof -
  have a: "(Map.empty :: filesystem) ''data.json'' = None" by simp
  have b: "\<not> stat_fails no_faults" "write_fault no_faults = NoWriteFault"
    "\<not> read_fails no_faults"
    by (simp_all add: no_faults_def)
  have c: "\<not> stat_fails (no_faults\<lparr>write_fault := OpenFault\<rparr>)"
    "write_fault (no_faults\<lparr>write_fault := OpenFault\<rparr>) \<noteq> NoWriteFault"
    by (simp_all add: no_faults_def)
  show ?thesis
    using initialization_writes_empty_object [OF a b(1), of int_conv]
      initialization_writes_empty_object [OF a c(1), of int_conv] b c
    by simp
qed

text \<open>
  Claim C6. When the file exists, is empty and can be read, \<^verbatim>\<open>readDataFile\<close> returns the
  empty object.
\<close>

theorem empty_file_reads_empty_object:
  assumes "fs (filepath s) = Some []" and "\<not> read_fails io"
  shows "readDataFile fc io fs s = Inr (Some [])"
  using assms by (simp add: readDataFile_def os_ReadFile_def)

theorem empty_file_reads_empty_object_witness:
  "[''data.json'' \<mapsto> []] (filepath \<lparr>filepath = ''data.json''\<rparr>) = Some []
   \<and> \<not> read_fails no_faults
   \<and> readDataFile int_conv no_faults [''data.json'' \<mapsto> []] \<lparr>filepath = ''data.json''\<rparr>
       = Inr (Some [])"
  using empty_file_reads_empty_object
    [of "[''data.json'' \<mapsto> []]" "\<lparr>filepath = ''data.json''\<rparr>" no_faults int_conv]
  by (simp add: no_faults_def)

text \<open>
  Claim C7. Saving the same document twice leaves the result and the files of saving it
  once, whatever the operating system does (the same in both calls); and when the second
  save meets no fault, the files are those of one save without a fault.
\<close>

theorem replace_twice_same_state:
  "saveDataFile fc io (snd (saveDataFile fc io fs s d)) s d = saveDataFile fc io fs s d
   \<and> snd (saveDataFile fc no_faults (snd (saveDataFile fc io fs s d)) s d)
       = snd (saveDataFile fc no_faults fs s d)"
  by (cases "MarshalIndent fc d"; cases "write_fault io")
     (simp_all add: saveDataFile_cases no_faults_def)

theorem replace_twice_same_state_witness:
  "snd (saveDataFile int_conv no_faults
          (snd (saveDataFile int_conv no_faults Map.empty store0 (Some []))) store0 (Some []))
     = [''data.json'' \<mapsto> ''{}'']"
  using replace_twice_same_state [of int_conv no_faults Map.empty store0 "Some []"]
  by (simp add: saveDataFile_cases MarshalIndent_empty_object no_faults_def)






text \<open>
  Claim C10. A POST or PUT with the body \<^verbatim>\<open>null\<close> is answered with 201 or 200 when the
  write meets no fault, the file then holds the bytes \<^verbatim>\<open>null\<close>, which is the JSON value
  null and no object, and a read of it returns the nil map.
\<close>

theorem null_body_is_stored:
  assumes "write_fault io = NoWriteFault" and "\<not> read_fails io'"
  shows "data_route fc io fs s \<lparr>Method = ''POST'', Body = Some ''null''\<rparr>
           = (\<lparr>status = 201, content_type = ''application/json'',
               written = ''{\"message\": \"Data successfully stored/updated\", \"status\": 201}''\<rparr>,
              fs(filepath s \<mapsto> ''null''))
       \<and> data_route fc io fs s \<lparr>Method = ''PUT'', Body = Some ''null''\<rparr>
           = (\<lparr>status = 200, content_type = ''application/json'',
               written = ''{\"message\": \"Data successfully stored/updated\", \"status\": 200}''\<rparr>,
              fs(filepath s \<mapsto> ''null''))
       \<and> readDataFile fc io' (fs(filepath s \<mapsto> ''null'')) s = Inr None
       \<and> parse_json ''null'' = Some JNull"
proof -
  have sv: "saveDataFile fc io fs s None = (None, fs(filepath s \<mapsto> ''null''))"
    using assms(1) by (rule save_nil_no_fault)
  have p: "data_route fc io fs s \<lparr>Method = ''POST'', Body = Some ''null''\<rparr>
      = (stored_envelope 201, fs(filepath s \<mapsto> ''null''))"
    using updateDataHandler_stored
      [of "\<lparr>Method = ''POST'', Body = Some ''null''\<rparr>" "''null''" fc None io fs s, OF _ _ _ sv]
    by (simp add: data_route_update Unmarshal_null)
  have q: "data_route fc io fs s \<lparr>Method = ''PUT'', Body = Some ''null''\<rparr>
      = (stored_envelope 200, fs(filepath s \<mapsto> ''null''))"
    using updateDataHandler_stored
      [of "\<lparr>Method = ''PUT'', Body = Some ''null''\<rparr>" "''null''" fc None io fs s, OF _ _ _ sv]
    by (simp add: data_route_update Unmarshal_null)
  have r: "readDataFile fc io' (fs(filepath s \<mapsto> ''null'')) s = Inr None"
    using assms(2) by (simp add: readDataFile_def os_ReadFile_def Unmarshal_null)
  show ?thesis
    using p q r parse_json_null by (simp only: stored_envelope_201 stored_envelope_200 simp_thms)
qed

theorem null_body_is_stored_witness:
  "write_fault no_faults = NoWriteFault \<and> \<not> read_fails no_faults
   \<and> snd (data_route int_conv no_faults [''data.json'' \<mapsto> ''{}''] store0
            \<lparr>Method = ''POST'', Body = Some ''null''\<rparr>) ''data.json'' = Some ''null''
   \<and> readDataFile int_conv no_faults [''data.json'' \<mapsto> ''null''] store0 = Inr None"
proof -
  have a: "write_fault no_faults = NoWriteFault" and b: "\<not> read_fails no_faults"
    by (simp_all add: no_faults_def)
  have c: "[''data.json'' \<mapsto> ''{}''](filepath store0 \<mapsto> ''null'') = [''data.json'' \<mapsto> ''null'']"
    by simp
  show ?thesis
    using null_body_is_stored [OF a b, of int_conv "[''data.json'' \<mapsto> ''{}'']" store0] a b c
    by simp
qed

end
